theory Spec2Isabelle
  imports Main "HOL-Library.AList"
begin

section \<open>JavaScript values and objects\<close>

text \<open>
  The program (\<^verbatim>\<open>src/ember-i18n-export.js\<close>) works on plain JavaScript objects. A
  translation value is a primitive that \<^verbatim>\<open>JSON.parse\<close> or the csv parser can deliver,
  or \<^verbatim>\<open>undefined\<close> when a property is read that the object does not have.
\<close>

datatype jsval = Undefined | Null | Num int | Str string

text \<open>JavaScript truthiness, as the tests \<^verbatim>\<open>if (v)\<close>, \<^verbatim>\<open>!v\<close> and \<^verbatim>\<open>v && ...\<close> read it.\<close>

fun truthy :: "jsval \<Rightarrow> bool" where
  "truthy Undefined = False"
| "truthy Null = False"
| "truthy (Num n) = (n \<noteq> 0)"
| "truthy (Str s) = (s \<noteq> [])"

text \<open>
  An object is the list of its own enumerable properties in enumeration order (the order
  \<^verbatim>\<open>for ... in\<close>, \<^verbatim>\<open>Object.keys\<close> and \<^verbatim>\<open>forEachKeys\<close> visit them in). The prototype chain is
  not modelled: property names are ordinary names, not \<^verbatim>\<open>__proto__\<close> or the name of a
  method of \<^verbatim>\<open>Object.prototype\<close>.
\<close>

type_synonym 'v object = "(string \<times> 'v) list"

definition objectKeys :: "'v object \<Rightarrow> string list" where
  "objectKeys obj = map fst obj"

text \<open>\<^verbatim>\<open>obj[k]\<close> for an object of primitive values: \<^verbatim>\<open>undefined\<close> when \<open>k\<close> is missing.\<close>

definition getProp :: "jsval object \<Rightarrow> string \<Rightarrow> jsval" where
  "getProp obj k = (case map_of obj k of None \<Rightarrow> Undefined | Some v \<Rightarrow> v)"

text \<open>\<^verbatim>\<open>obj[k] = v\<close>: an existing property keeps its place, a new one goes last.\<close>

definition setProp :: "'v object \<Rightarrow> string \<Rightarrow> 'v \<Rightarrow> 'v object" where
  "setProp obj k v = AList.update k v obj"

type_synonym localeDict = "jsval object"
type_synonym translationMap = "localeDict object"
type_synonym row = "jsval object"

text \<open>
  A translation key handed to the row writers is a string or \<^verbatim>\<open>null\<close> (the separator
  rows). Used as a property name \<^verbatim>\<open>null\<close> reads the property called "null"; written into
  a cell it stays \<^verbatim>\<open>null\<close>.
\<close>

fun propertyKey :: "string option \<Rightarrow> string" where
  "propertyKey None = ''null''"
| "propertyKey (Some k) = k"

fun keyCell :: "string option \<Rightarrow> jsval" where
  "keyCell None = Null"
| "keyCell (Some k) = Str k"

datatype error =
    TypeError
  | NoTranslationKeyColumn
  | ParseError
  | SystemError

text \<open>A loop whose body may throw: the first error ends it.\<close>

fun foldE :: "('a \<Rightarrow> 'b \<Rightarrow> error + 'a) \<Rightarrow> 'a \<Rightarrow> 'b list \<Rightarrow> error + 'a" where
  "foldE f a [] = Inr a"
| "foldE f a (x # xs) = (case f a x of Inl e \<Rightarrow> Inl e | Inr a' \<Rightarrow> foldE f a' xs)"

section \<open>Column names\<close>

text \<open>
  \<^verbatim>\<open>String.prototype.toUpperCase\<close> and \<^verbatim>\<open>String.prototype.toLowerCase\<close> are built into the
  language and not part of the program: every function that calls one of them takes it
  as the parameter \<open>toUpperCase\<close> or \<open>toLowerCase\<close>, and what is proved holds for
  whatever the two functions are.

  \<^verbatim>\<open>localeColumnNames\<close> is the object parsed from the command line: locale to display
  name. \<^verbatim>\<open>!columnName\<close> holds when the locale has no entry or an empty one.
\<close>

type_synonym localeColumnNames = "string object"

definition getLocaleColumnName ::
  "(string \<Rightarrow> string) \<Rightarrow> string \<Rightarrow> localeColumnNames \<Rightarrow> string" where
  "getLocaleColumnName toUpperCase locale localeColumnNames =
     (let columnName = map_of localeColumnNames locale;
          columnName = (case columnName of
                          None \<Rightarrow> locale
                        | Some c \<Rightarrow> if c = [] then locale else c)
      in toUpperCase columnName)"

definition getColumnNameFromLocale ::
  "(string \<Rightarrow> string) \<Rightarrow> string \<Rightarrow> localeColumnNames \<Rightarrow> string" where
  "getColumnNameFromLocale toUpperCase locale localeColumnNames =
     (let columnName = map_of localeColumnNames locale;
          columnName = (case columnName of
                          None \<Rightarrow> locale
                        | Some c \<Rightarrow> if c = [] then locale else c)
      in toUpperCase columnName)"

text \<open>
  The \<^verbatim>\<open>for ... in\<close> loop returns the first locale whose configured name is the column
  name as it stands; after the loop the column name is lower-cased. (The guard
  \<^verbatim>\<open>if (localeColumnNames)\<close> is always taken: an object is truthy.)
\<close>

fun getLocaleFromColumnName ::
  "(string \<Rightarrow> string) \<Rightarrow> string \<Rightarrow> localeColumnNames \<Rightarrow> string" where
  "getLocaleFromColumnName toLowerCase columnName [] = toLowerCase columnName"
| "getLocaleFromColumnName toLowerCase columnName ((locale, name) # rest) =
     (if columnName = name then locale
      else getLocaleFromColumnName toLowerCase columnName rest)"

section \<open>Canonical keys\<close>

text \<open>
  \<^verbatim>\<open>array-contains\<close> (\<^verbatim>\<open>src/node_modules/array-contains/index.js\<close>): a hash from each
  element to its index, then \<^verbatim>\<open>hasOwnProperty\<close>.
\<close>

definition arrayContains :: "string list \<Rightarrow> string \<Rightarrow> bool" where
  "arrayContains arrays array =
     (let hash = foldl (\<lambda>hash key. hash(arrays ! key \<mapsto> key)) Map.empty [0..<length arrays]
      in hash array \<noteq> None)"

text \<open>
  \<^verbatim>\<open>forEachKeys(translationMap, (localeObj, localKey) => ...)\<close> visits the locales in
  order; inside it \<^verbatim>\<open>translationMap[localKey]\<close> is the \<open>localeObj\<close> being visited.
\<close>

definition getTranslationKeys :: "translationMap \<Rightarrow> string list" where
  "getTranslationKeys translationMap =
     foldl (\<lambda>translationKeys (localKey, localeObj).
              foldl (\<lambda>translationKeys translationKey.
                       if \<not> arrayContains translationKeys translationKey
                       then translationKeys @ [translationKey]
                       else translationKeys)
                    translationKeys (objectKeys localeObj))
           [] translationMap"

section \<open>The diff engine\<close>

text \<open>
  Modelled from the spec: the package \<^verbatim>\<open>array-difference\<close> is required by the program
  but is not among the sources. It returns the symmetric difference, the elements of the
  first array missing from the second followed by the elements of the second missing from
  the first; the filters of the two functions below then pick the one-sided parts, which
  the specification gives as the inserted and the deleted keys.
\<close>

definition arrayDiff :: "string list \<Rightarrow> string list \<Rightarrow> string list" where
  "arrayDiff a b = filter (\<lambda>x. x \<notin> set b) a @ filter (\<lambda>x. x \<notin> set a) b"

text \<open>\<^verbatim>\<open>Array.prototype.includes\<close> on an array of strings.\<close>

definition arrayIncludes :: "string list \<Rightarrow> string \<Rightarrow> bool" where
  "arrayIncludes xs x = (x \<in> set xs)"

definition getInsertedTranslationKeys :: "translationMap \<Rightarrow> translationMap \<Rightarrow> string list" where
  "getInsertedTranslationKeys oldTranslationMap newTranslationMap =
     (let oldTranslationKeys = getTranslationKeys oldTranslationMap;
          newTranslationKeys = getTranslationKeys newTranslationMap;
          diffTranslationKeys = arrayDiff oldTranslationKeys newTranslationKeys
      in filter (\<lambda>translationKey.
                   \<not> arrayIncludes oldTranslationKeys translationKey
                   \<and> arrayIncludes newTranslationKeys translationKey)
                diffTranslationKeys)"

definition getDeletedTranslationKeys :: "translationMap \<Rightarrow> translationMap \<Rightarrow> string list" where
  "getDeletedTranslationKeys oldTranslationMap newTranslationMap =
     (let oldTranslationKeys = getTranslationKeys oldTranslationMap;
          newTranslationKeys = getTranslationKeys newTranslationMap;
          diffTranslationKeys = arrayDiff oldTranslationKeys newTranslationKeys
      in filter (\<lambda>translationKey.
                   arrayIncludes oldTranslationKeys translationKey
                   \<and> \<not> arrayIncludes newTranslationKeys translationKey)
                diffTranslationKeys)"

text \<open>
  \<^verbatim>\<open>translationMap[localKey][translationKey]\<close>: reading a property of \<^verbatim>\<open>undefined\<close>
  throws a TypeError when the map has no such locale.
\<close>

definition getTranslation :: "translationMap \<Rightarrow> string \<Rightarrow> string \<Rightarrow> error + jsval" where
  "getTranslation translationMap localKey translationKey =
     (case map_of translationMap localKey of
        None \<Rightarrow> Inl TypeError
      | Some localeObj \<Rightarrow> Inr (getProp localeObj translationKey))"

text \<open>
  The body of the inner callback of \<^verbatim>\<open>getUpdatedTranslationKeys\<close>. The condition is
  evaluated left to right and stops at the first falsy conjunct, so the new map is read
  only when the old value is truthy.
\<close>

definition updatedStep ::
  "translationMap \<Rightarrow> translationMap \<Rightarrow> string list \<Rightarrow> string
     \<Rightarrow> string list \<Rightarrow> string \<Rightarrow> error + string list" where
  "updatedStep oldTranslationMap newTranslationMap deletedTranslationKeys localKey
       updatedTranslationKeys translationKey =
     (case getTranslation oldTranslationMap localKey translationKey of
        Inl e \<Rightarrow> Inl e
      | Inr oldValue \<Rightarrow>
          if \<not> truthy oldValue then Inr updatedTranslationKeys
          else (case getTranslation newTranslationMap localKey translationKey of
                  Inl e \<Rightarrow> Inl e
                | Inr newValue \<Rightarrow>
                    if oldValue \<noteq> newValue
                       \<and> \<not> arrayContains deletedTranslationKeys translationKey
                    then Inr (updatedTranslationKeys @ [translationKey])
                    else Inr updatedTranslationKeys))"

definition getUpdatedTranslationKeys ::
  "translationMap \<Rightarrow> translationMap \<Rightarrow> error + string list" where
  "getUpdatedTranslationKeys oldTranslationMap newTranslationMap =
     (let deletedTranslationKeys = getDeletedTranslationKeys oldTranslationMap newTranslationMap
      in foldE (\<lambda>updatedTranslationKeys (localKey, localeObj).
                  foldE (updatedStep oldTranslationMap newTranslationMap
                           deletedTranslationKeys localKey)
                        updatedTranslationKeys (objectKeys localeObj))
               [] oldTranslationMap)"

text \<open>
  The three key lists are arrays, which are truthy, so each \<^verbatim>\<open>keys && keys.length > 0\<close>
  is the length test.
\<close>

definition isJournalGenerated :: "string list \<Rightarrow> string list \<Rightarrow> string list \<Rightarrow> bool \<Rightarrow> bool" where
  "isJournalGenerated insertedTranslationKeys updatedTranslationKeys deletedTranslationKeys
       showDeletedInJournal =
     (length insertedTranslationKeys > 0
      \<or> length updatedTranslationKeys > 0
      \<or> (showDeletedInJournal \<and> length deletedTranslationKeys > 0))"

section \<open>The report renderer\<close>

text \<open>
  A csv writer is the list of the rows written to it so far; \<^verbatim>\<open>writer.write(row)\<close>
  appends one. The output paths are not modelled: each generator returns the rows of the
  file it writes.
\<close>

definition UpdateType_UPDATE :: string where "UpdateType_UPDATE = ''UPDATE''"
definition UpdateType_INSERT :: string where "UpdateType_INSERT = ''NEW''"
definition UpdateType_DELETE :: string where "UpdateType_DELETE = ''DELETE''"

text \<open>
  In the row writers \<^verbatim>\<open>translationMap[localKey]\<close> is read for a \<open>localKey\<close> that the
  enclosing \<^verbatim>\<open>forEachKeys\<close> enumerates, so it is the enumerated \<open>localeObj\<close>.
\<close>

definition writeTranslationRow ::
  "(string \<Rightarrow> string) \<Rightarrow> row list \<Rightarrow> string option \<Rightarrow> translationMap \<Rightarrow> string
     \<Rightarrow> localeColumnNames \<Rightarrow> row list" where
  "writeTranslationRow toUpperCase writer translationKey translationMap
       translationKeyColumnName localeColumnNames =
     (let row = [];
          row = setProp row translationKeyColumnName (keyCell translationKey);
          row = foldl (\<lambda>row (localKey, localeObj).
                         setProp row (getLocaleColumnName toUpperCase localKey localeColumnNames)
                           (getProp localeObj (propertyKey translationKey)))
                      row translationMap
      in writer @ [row])"

definition writeJournalRow ::
  "(string \<Rightarrow> string) \<Rightarrow> row list \<Rightarrow> string option \<Rightarrow> translationMap \<Rightarrow> translationMap
     \<Rightarrow> string \<Rightarrow> localeColumnNames \<Rightarrow> bool \<Rightarrow> jsval \<Rightarrow> row list" where
  "writeJournalRow toUpperCase writer translationKey translationMap oldTranslationMap
       translationKeyColumnName localeColumnNames showOldValueInJournal updateType =
     (let row = [];
          row = setProp row translationKeyColumnName (keyCell translationKey);
          row = foldl (\<lambda>row (localKey, localeObj).
                         setProp row (getLocaleColumnName toUpperCase localKey localeColumnNames)
                           (getProp localeObj (propertyKey translationKey)))
                      row translationMap;
          row = (if showOldValueInJournal
                 then foldl (\<lambda>row (localKey, localeObj).
                               setProp row
                                 (getLocaleColumnName toUpperCase localKey localeColumnNames
                                    @ ''_OLD'')
                                 (getProp localeObj (propertyKey translationKey)))
                            row oldTranslationMap
                 else row);
          row = setProp row ''UPDATE_TYPE'' updateType
      in writer @ [row])"

definition writeJournalRows ::
  "(string \<Rightarrow> string) \<Rightarrow> row list \<Rightarrow> string list \<Rightarrow> translationMap \<Rightarrow> translationMap
     \<Rightarrow> string \<Rightarrow> localeColumnNames \<Rightarrow> bool \<Rightarrow> string \<Rightarrow> row list" where
  "writeJournalRows toUpperCase writer translationKeys translationMap oldTranslationMap
       translationKeyColumnName localeColumnNames showOldValueInJournal updateType =
     foldl (\<lambda>writer translationKey.
              writeJournalRow toUpperCase writer (Some translationKey) translationMap
                oldTranslationMap translationKeyColumnName localeColumnNames
                showOldValueInJournal (Str updateType))
           writer translationKeys"

definition generateTranslationFile ::
  "(string \<Rightarrow> string) \<Rightarrow> translationMap \<Rightarrow> string list \<Rightarrow> string \<Rightarrow> localeColumnNames
     \<Rightarrow> row list" where
  "generateTranslationFile toUpperCase translationMap translationKeys
       translationKeyColumnName localeColumnNames =
     (let writer = [];
          writer = writeTranslationRow toUpperCase writer None translationMap
                     translationKeyColumnName localeColumnNames;
          writer = foldl (\<lambda>writer translationKey.
                            writeTranslationRow toUpperCase writer (Some translationKey)
                              translationMap translationKeyColumnName localeColumnNames)
                         writer translationKeys;
          writer = writeTranslationRow toUpperCase writer None translationMap
                     translationKeyColumnName localeColumnNames
      in writer)"

text \<open>
  The two separator rows are written by \<^verbatim>\<open>writeJournalRow\<close> with a \<^verbatim>\<open>null\<close> key and
  without the last argument, so their update type is \<^verbatim>\<open>undefined\<close>.
\<close>

definition generateJournalFile ::
  "(string \<Rightarrow> string) \<Rightarrow> translationMap \<Rightarrow> translationMap \<Rightarrow> string list \<Rightarrow> string list
     \<Rightarrow> string list \<Rightarrow> string \<Rightarrow> localeColumnNames \<Rightarrow> bool \<Rightarrow> bool \<Rightarrow> row list" where
  "generateJournalFile toUpperCase translationMap oldTranslationMap insertedTranslationKeys
       updatedTranslationKeys deletedTranslationKeys translationKeyColumnName
       localeColumnNames showDeletedInJournal showOldValueInJournal =
     (let writer = [];
          writer = writeJournalRow toUpperCase writer None translationMap oldTranslationMap
                     translationKeyColumnName localeColumnNames showOldValueInJournal
                     Undefined;
          writer = writeJournalRows toUpperCase writer insertedTranslationKeys translationMap
                     oldTranslationMap translationKeyColumnName localeColumnNames
                     showOldValueInJournal UpdateType_INSERT;
          writer = writeJournalRows toUpperCase writer updatedTranslationKeys translationMap
                     oldTranslationMap translationKeyColumnName localeColumnNames
                     showOldValueInJournal UpdateType_UPDATE;
          writer = (if showDeletedInJournal
                    then writeJournalRows toUpperCase writer deletedTranslationKeys
                           translationMap oldTranslationMap translationKeyColumnName
                           localeColumnNames showOldValueInJournal UpdateType_DELETE
                    else writer);
          writer = writeJournalRow toUpperCase writer None translationMap oldTranslationMap
                     translationKeyColumnName localeColumnNames showOldValueInJournal
                     Undefined
      in writer)"

text \<open>
  The package \<^verbatim>\<open>wordcount\<close> is an external collaborator: \<open>wordCount\<close> is a parameter,
  which returns the count or the error it throws (it throws on a value that is not a
  string). \<^verbatim>\<open>forEachKeys(translationMap[localeKey], ...)\<close> throws when the map has no
  such locale.
\<close>

definition writeMetaDataRow ::
  "(jsval \<Rightarrow> error + int) \<Rightarrow> row list \<Rightarrow> string \<Rightarrow> translationMap \<Rightarrow> error + row list" where
  "writeMetaDataRow wordCount writer localeKey translationMap =
     (let row = [];
          row = setProp row ''LOCALE'' (Str localeKey);
          localeWordCount = 0;
          keyCount = 0
      in case map_of translationMap localeKey of
           None \<Rightarrow> Inl TypeError
         | Some localeObj \<Rightarrow>
             (case foldE (\<lambda>localeWordCount translationKey.
                            case wordCount (getProp localeObj translationKey) of
                              Inl e \<Rightarrow> Inl e
                            | Inr n \<Rightarrow> Inr (localeWordCount + n))
                         localeWordCount (objectKeys localeObj) of
                Inl e \<Rightarrow> Inl e
              | Inr localeWordCount \<Rightarrow>
                  (let row = setProp row ''NUMBER_OF_WORDS'' (Num localeWordCount);
                       row = setProp row ''NUMBER_OF_KEYS'' (Num keyCount)
                   in Inr (writer @ [row]))))"

definition generateTranslationMetaFile ::
  "(jsval \<Rightarrow> error + int) \<Rightarrow> translationMap \<Rightarrow> error + row list" where
  "generateTranslationMetaFile wordCount translationMap =
     (let writer = [];
          writer = writer @ [[(''LOCALE'', Str []), (''NUMBER_OF_KEYS'', Str []),
                              (''NUMBER_OF_WORDS'', Str [])]]
      in foldE (\<lambda>writer (localKey, localeObj).
                  writeMetaDataRow wordCount writer localKey translationMap)
               writer translationMap)"

section \<open>Loading the translations\<close>

text \<open>
  The file system as the loader reads it, each call returning its result or the error it
  throws: \<^verbatim>\<open>fs.readdirSync\<close> (it throws for a directory that does not exist),
  \<^verbatim>\<open>fs.statSync(path).isDirectory()\<close> (it throws for a path that does not exist),
  \<^verbatim>\<open>fs.existsSync\<close> and \<^verbatim>\<open>fs.readFileSync\<close>. Parsing and flattening a translation file
  (\<^verbatim>\<open>JSON.parse\<close> and the package \<^verbatim>\<open>flat\<close>) are external: the parameter
  \<open>getFlattenTranslations\<close> returns the flat dictionary or the error thrown.
\<close>

record filesystem =
  readdirSync :: "string \<Rightarrow> error + string list"
  statIsDirectory :: "string \<Rightarrow> error + bool"
  existsSync :: "string \<Rightarrow> bool"
  readFileSync :: "string \<Rightarrow> error + string"

text \<open>\<^verbatim>\<open>Array.prototype.filter\<close> with a callback that may throw.\<close>

fun filterE :: "('a \<Rightarrow> error + bool) \<Rightarrow> 'a list \<Rightarrow> error + 'a list" where
  "filterE p [] = Inr []"
| "filterE p (x # xs) =
     (case p x of
        Inl e \<Rightarrow> Inl e
      | Inr keep \<Rightarrow>
          (case filterE p xs of
             Inl e \<Rightarrow> Inl e
           | Inr ys \<Rightarrow> Inr (if keep then x # ys else ys)))"

definition getLocales :: "filesystem \<Rightarrow> string \<Rightarrow> error + string list" where
  "getLocales fs inputDir =
     (case readdirSync fs inputDir of
        Inl e \<Rightarrow> Inl e
      | Inr files \<Rightarrow> filterE (\<lambda>file. statIsDirectory fs (inputDir @ file)) files)"

text \<open>The body of the \<^verbatim>\<open>forEach\<close> of \<^verbatim>\<open>getTranslationMap\<close>, on the map it fills.\<close>

definition loadLocale ::
  "filesystem \<Rightarrow> (string \<Rightarrow> error + localeDict) \<Rightarrow> string \<Rightarrow> string
     \<Rightarrow> translationMap \<Rightarrow> string \<Rightarrow> error + translationMap" where
  "loadLocale fs getFlattenTranslations inputDir inputFile translationsMap locale =
     (let translationFilePath = inputDir @ locale @ ''/'' @ inputFile
      in if existsSync fs translationFilePath
         then (case readFileSync fs translationFilePath of
                 Inl e \<Rightarrow> Inl e
               | Inr data \<Rightarrow>
                   (case getFlattenTranslations data of
                      Inl e \<Rightarrow> Inl e
                    | Inr flattenTranslations \<Rightarrow>
                        Inr (setProp translationsMap locale flattenTranslations)))
         else Inr (setProp translationsMap locale []))"

definition getTranslationMap ::
  "filesystem \<Rightarrow> (string \<Rightarrow> error + localeDict) \<Rightarrow> string \<Rightarrow> string
     \<Rightarrow> error + translationMap" where
  "getTranslationMap fs getFlattenTranslations inputDir inputFile =
     (case getLocales fs inputDir of
        Inl e \<Rightarrow> Inl e
      | Inr locales \<Rightarrow>
          (let translationsMap = []
           in foldE (loadLocale fs getFlattenTranslations inputDir inputFile)
                    translationsMap locales))"

section \<open>The export\<close>

record opts =
  inputDir :: string
  inputFile :: string
  localeColumnNames :: localeColumnNames
  translationKeyColumnName :: string
  showDeletedInJournal :: bool
  showOldValueInJournal :: bool

text \<open>The three files a run may write; \<open>None\<close> is a file that was not written.\<close>

record artifacts =
  translationFile :: "row list option"
  journalFile :: "row list option"
  metaDataFile :: "row list option"

definition noArtifacts :: artifacts where
  "noArtifacts = \<lparr>translationFile = None, journalFile = None, metaDataFile = None\<rparr>"

text \<open>
  The \<^verbatim>\<open>headers\<close> callback of the csv parser; \<open>headerStep\<close> is the body of its
  \<^verbatim>\<open>forEach\<close>, on the map and the flag it updates. \<^verbatim>\<open>!oldTranslationMap[locale]\<close> holds
  when the map has no such locale yet (an object, even an empty one, is truthy).
\<close>

definition headerStep ::
  "(string \<Rightarrow> string) \<Rightarrow> opts \<Rightarrow> translationMap \<times> bool \<Rightarrow> string \<Rightarrow> translationMap \<times> bool" where
  "headerStep toLowerCase opts state header =
     (let (oldTranslationMap, hasTranslationKey) = state
      in if header \<noteq> translationKeyColumnName opts
         then (if map_of oldTranslationMap
                    (getLocaleFromColumnName toLowerCase header (localeColumnNames opts)) = None
               then (setProp oldTranslationMap
                       (getLocaleFromColumnName toLowerCase header (localeColumnNames opts)) [],
                     hasTranslationKey)
               else (oldTranslationMap, hasTranslationKey))
         else (oldTranslationMap, True))"

definition onHeaders ::
  "(string \<Rightarrow> string) \<Rightarrow> opts \<Rightarrow> translationMap \<Rightarrow> string list \<Rightarrow> error + translationMap" where
  "onHeaders toLowerCase opts oldTranslationMap headers =
     (let hasTranslationKey = False;
          (oldTranslationMap, hasTranslationKey) =
            foldl (headerStep toLowerCase opts) (oldTranslationMap, hasTranslationKey) headers
      in if \<not> hasTranslationKey then Inl NoTranslationKeyColumn else Inr oldTranslationMap)"

text \<open>
  The \<^verbatim>\<open>data\<close> callback: one parsed row, every cell a string. A row with no (or an empty)
  translation key changes nothing.
\<close>

definition onData ::
  "(string \<Rightarrow> string) \<Rightarrow> opts \<Rightarrow> translationMap \<Rightarrow> string object \<Rightarrow> translationMap" where
  "onData toUpperCase opts oldTranslationMap data =
     foldl (\<lambda>oldTranslationMap localKey.
              case map_of data (translationKeyColumnName opts) of
                None \<Rightarrow> oldTranslationMap
              | Some translationKey \<Rightarrow>
                  if translationKey = [] then oldTranslationMap
                  else (case map_of oldTranslationMap localKey of
                          None \<Rightarrow> oldTranslationMap
                        | Some localeObj \<Rightarrow>
                            setProp oldTranslationMap localKey
                              (setProp localeObj translationKey
                                 (case map_of data
                                         (getColumnNameFromLocale toUpperCase localKey
                                            (localeColumnNames opts)) of
                                    None \<Rightarrow> Undefined
                                  | Some cell \<Rightarrow> Str cell))))
           oldTranslationMap (objectKeys oldTranslationMap)"

text \<open>
  The \<^verbatim>\<open>end\<close> callback. An error leaves the files written before it; the first component
  of the result is the error thrown, if any.
\<close>

definition onEnd ::
  "(string \<Rightarrow> string) \<Rightarrow> opts \<Rightarrow> (jsval \<Rightarrow> error + int) \<Rightarrow> translationMap \<Rightarrow> string list
     \<Rightarrow> translationMap \<Rightarrow> error option \<times> artifacts" where
  "onEnd toUpperCase opts wordCount translationMap translationKeys oldTranslationMap =
     (let files = noArtifacts\<lparr>translationFile :=
                    Some (generateTranslationFile toUpperCase translationMap translationKeys
                            (translationKeyColumnName opts) (localeColumnNames opts))\<rparr>;
          insertedTranslationKeys = getInsertedTranslationKeys oldTranslationMap translationMap
      in case getUpdatedTranslationKeys oldTranslationMap translationMap of
           Inl e \<Rightarrow> (Some e, files)
         | Inr updatedTranslationKeys \<Rightarrow>
             (let deletedTranslationKeys =
                    getDeletedTranslationKeys oldTranslationMap translationMap;
                  files =
                    (if isJournalGenerated insertedTranslationKeys updatedTranslationKeys
                          deletedTranslationKeys (showDeletedInJournal opts)
                     then files\<lparr>journalFile :=
                            Some (generateJournalFile toUpperCase translationMap
                                    oldTranslationMap insertedTranslationKeys
                                    updatedTranslationKeys deletedTranslationKeys
                                    (translationKeyColumnName opts) (localeColumnNames opts)
                                    (showDeletedInJournal opts) (showOldValueInJournal opts))\<rparr>
                     else files)
              in case generateTranslationMetaFile wordCount translationMap of
                   Inl e \<Rightarrow> (Some e, files)
                 | Inr rows \<Rightarrow> (None, files\<lparr>metaDataFile := Some rows\<rparr>)))"

text \<open>
  What the csv parser makes of an earlier export that exists: it fires \<^verbatim>\<open>headers\<close> once
  with the header row, then \<^verbatim>\<open>data\<close> for every row after it, then \<^verbatim>\<open>end\<close>; for a file
  with no header row (an empty file) it fires \<^verbatim>\<open>end\<close> alone.
\<close>

datatype csvEvents =
    EndOnly
  | HeadersDataEnd "string list" "string object list"

text \<open>
  \<^verbatim>\<open>exportTranslations\<close>. \<open>previous\<close> is \<open>None\<close> when the output file does not exist yet,
  and otherwise what the parser fires for it. \<^verbatim>\<open>oldTranslationMap\<close> starts as \<^verbatim>\<open>{}\<close>; the
  check for the translation-key column is inside the \<^verbatim>\<open>headers\<close> callback only.
\<close>

definition exportTranslations ::
  "(string \<Rightarrow> string) \<Rightarrow> (string \<Rightarrow> string) \<Rightarrow> opts \<Rightarrow> filesystem
     \<Rightarrow> (string \<Rightarrow> error + localeDict) \<Rightarrow> (jsval \<Rightarrow> error + int)
     \<Rightarrow> csvEvents option \<Rightarrow> error option \<times> artifacts" where
  "exportTranslations toUpperCase toLowerCase opts fs getFlattenTranslations wordCount previous =
     (case getTranslationMap fs getFlattenTranslations (inputDir opts) (inputFile opts) of
        Inl e \<Rightarrow> (Some e, noArtifacts)
      | Inr translationMap \<Rightarrow>
          (let translationKeys = getTranslationKeys translationMap
           in case previous of
                Some events \<Rightarrow>
                  (let oldTranslationMap = []
                   in case events of
                        EndOnly \<Rightarrow>
                          onEnd toUpperCase opts wordCount translationMap translationKeys
                            oldTranslationMap
                      | HeadersDataEnd headers rows \<Rightarrow>
                          (case onHeaders toLowerCase opts oldTranslationMap headers of
                             Inl e \<Rightarrow> (Some e, noArtifacts)
                           | Inr oldTranslationMap \<Rightarrow>
                               onEnd toUpperCase opts wordCount translationMap translationKeys
                                 (foldl (onData toUpperCase opts) oldTranslationMap rows)))
              | None \<Rightarrow>
                  (let files = noArtifacts\<lparr>translationFile :=
                                 Some (generateTranslationFile toUpperCase translationMap
                                         translationKeys (translationKeyColumnName opts)
                                         (localeColumnNames opts))\<rparr>
                   in case generateTranslationMetaFile wordCount translationMap of
                        Inl e \<Rightarrow> (Some e, files)
                      | Inr rows \<Rightarrow> (None, files\<lparr>metaDataFile := Some rows\<rparr>))))"

section \<open>Reading the classification\<close>

text \<open>
  A translation key \<open>k\<close> has changed in locale \<open>l\<close> when both maps have the locale, the
  previous value is truthy and the current value is not strictly equal to it.
\<close>

definition changedIn :: "translationMap \<Rightarrow> translationMap \<Rightarrow> string \<Rightarrow> string \<Rightarrow> bool" where
  "changedIn old new l k =
     (case getTranslation old l k of
        Inl e \<Rightarrow> False
      | Inr ov \<Rightarrow> (case getTranslation new l k of
                    Inl e \<Rightarrow> False
                  | Inr nv \<Rightarrow> truthy ov \<and> ov \<noteq> nv))"

section \<open>Scenarios\<close>

text \<open>
  The inputs of the scenarios are ASCII strings. On an ASCII string \<^verbatim>\<open>toUpperCase\<close> and
  \<^verbatim>\<open>toLowerCase\<close> change the letters a to z and A to Z and nothing else, which is what
  \<open>asciiUpperCase\<close> and \<open>asciiLowerCase\<close> compute; they stand for the two parameters
  in the scenarios, and only there.
\<close>

definition caseTable :: "(char \<times> char) list" where
  "caseTable = zip ''abcdefghijklmnopqrstuvwxyz'' ''ABCDEFGHIJKLMNOPQRSTUVWXYZ''"

definition asciiUpperCase :: "string \<Rightarrow> string" where
  "asciiUpperCase s = map (\<lambda>c. case map_of caseTable c of None \<Rightarrow> c | Some u \<Rightarrow> u) s"

definition asciiLowerCase :: "string \<Rightarrow> string" where
  "asciiLowerCase s =
     map (\<lambda>c. case map_of (map prod.swap caseTable) c of None \<Rightarrow> c | Some l \<Rightarrow> l) s"

text \<open>
  Every translation of the scenarios is empty or a single word; the word counter of the
  scenarios counts it so, and throws on a value that is not a string.
\<close>

abbreviation (input) scenarioWordCount :: "jsval \<Rightarrow> error + int" where
  "scenarioWordCount \<equiv>
     (\<lambda>v. case v of Str s \<Rightarrow> Inr (if s = [] then 0 else 1) | _ \<Rightarrow> Inl TypeError)"

abbreviation (input) scenarioOpts :: "bool \<Rightarrow> opts" where
  "scenarioOpts showDeleted \<equiv>
     \<lparr>inputDir = ''app/locales/'', inputFile = ''translations.js'', localeColumnNames = [],
      translationKeyColumnName = ''SYSTEM_KEY'', showDeletedInJournal = showDeleted,
      showOldValueInJournal = False\<rparr>"

abbreviation (input) scenarioA :: translationMap where
  "scenarioA \<equiv> [(''en'', [(''a'', Str ''hi'')]), (''fr'', [(''a'', Str ''salut'')])]"

abbreviation (input) scenarioPrevious :: translationMap where
  "scenarioPrevious \<equiv> [(''en'', [(''a'', Str ''hi''), (''z'', Str ''zed'')])]"

abbreviation (input) scenarioCurrent :: translationMap where
  "scenarioCurrent \<equiv> [(''en'', [(''a'', Str ''hello''), (''b'', Str ''bye'')])]"

abbreviation (input) scenarioD_previous :: translationMap where
  "scenarioD_previous \<equiv> [(''en'', [(''a'', Str ''hi''), (''z'', Str ''zed'')])]"

abbreviation (input) scenarioD_current :: translationMap where
  "scenarioD_current \<equiv> [(''en'', [(''a'', Str ''hi'')])]"

abbreviation (input) bothChangedPrevious :: translationMap where
  "bothChangedPrevious \<equiv> [(''en'', [(''a'', Str ''hi'')]), (''fr'', [(''a'', Str ''salut'')])]"

abbreviation (input) bothChangedCurrent :: translationMap where
  "bothChangedCurrent \<equiv> [(''en'', [(''a'', Str ''hello'')]), (''fr'', [(''a'', Str ''bonjour'')])]"

text \<open>
  Two locale directories, \<^verbatim>\<open>en\<close> with a translation file and \<^verbatim>\<open>fr\<close> without one.
\<close>

abbreviation (input) scenarioFs :: filesystem where
  "scenarioFs \<equiv>
     \<lparr>readdirSync = (\<lambda>path. Inr [''en'', ''fr'']),
      statIsDirectory = (\<lambda>path. Inr True),
      existsSync = (\<lambda>path. path = ''app/locales/en/translations.js''),
      readFileSync = (\<lambda>path. Inr ''export default {a: hi};'')\<rparr>"

abbreviation (input) scenarioFlatten :: "string \<Rightarrow> error + localeDict" where
  "scenarioFlatten \<equiv> (\<lambda>data. Inr [(''a'', Str ''hi'')])"

section \<open>Column naming agrees\<close>

text \<open>
  C9. The two column-naming functions are extensionally equal: for every locale and every
  locale-column-name map, \<open>getLocaleColumnName\<close> and \<open>getColumnNameFromLocale\<close> return
  the same column name.
\<close>

theorem column_name_functions_agree:
  "getLocaleColumnName toUpperCase locale columnNames
     = getColumnNameFromLocale toUpperCase locale columnNames"
  unfolding getLocaleColumnName_def getColumnNameFromLocale_def ..

section \<open>Facts about the loops\<close>

lemma hash_dom:
  "dom (foldl (\<lambda>hash key. hash(f key \<mapsto> key)) h ks) = dom h \<union> f ` set ks"
  by (induction ks arbitrary: h) auto

lemma arrayContains_iff: "arrayContains xs x = (x \<in> set xs)"
proof -
  have "(\<lambda>key. xs ! key) ` set [0..<length xs] = set (map (\<lambda>key. xs ! key) [0..<length xs])"
    by (simp only: set_map)
  also have "\<dots> = set xs"
    by (simp only: map_nth)
  finally have "(\<lambda>key. xs ! key) ` set [0..<length xs] = set xs" .
  then show ?thesis
    unfolding arrayContains_def Let_def
    using hash_dom [of "\<lambda>key. xs ! key" Map.empty "[0..<length xs]"]
    by (auto simp: dom_def)
qed

lemma push_keys_set:
  "set (foldl (\<lambda>ks k. if \<not> arrayContains ks k then ks @ [k] else ks) acc xs) = set acc \<union> set xs"
  by (induction xs arbitrary: acc) (auto simp: arrayContains_iff)

lemma push_keys_distinct:
  "distinct acc \<Longrightarrow> distinct (foldl (\<lambda>ks k. if \<not> arrayContains ks k then ks @ [k] else ks) acc xs)"
  by (induction xs arbitrary: acc) (auto simp: arrayContains_iff)

lemma keys_fold_set:
  "set (foldl (\<lambda>translationKeys (localKey, localeObj).
              foldl (\<lambda>translationKeys translationKey.
                       if \<not> arrayContains translationKeys translationKey
                       then translationKeys @ [translationKey]
                       else translationKeys)
                    translationKeys (objectKeys localeObj)) acc m)
   = set acc \<union> (\<Union>(l, d) \<in> set m. set (objectKeys d))"
proof (induction m arbitrary: acc)
  case Nil
  then show ?case by simp
next
  case (Cons p m)
  obtain l d where p: "p = (l, d)" by (cases p)
  show ?case
    unfolding p by (simp add: Cons.IH push_keys_set Un_assoc)
qed

lemma keys_fold_distinct:
  "distinct acc \<Longrightarrow> distinct (foldl (\<lambda>translationKeys (localKey, localeObj).
              foldl (\<lambda>translationKeys translationKey.
                       if \<not> arrayContains translationKeys translationKey
                       then translationKeys @ [translationKey]
                       else translationKeys)
                    translationKeys (objectKeys localeObj)) acc m)"
proof (induction m arbitrary: acc)
  case Nil
  then show ?case by simp
next
  case (Cons p m)
  obtain l d where p: "p = (l, d)" by (cases p)
  from Cons.prems show ?case
    unfolding p by (simp add: Cons.IH push_keys_distinct)
qed

lemma set_getTranslationKeys:
  "set (getTranslationKeys m) = (\<Union>(l, d) \<in> set m. set (objectKeys d))"
  unfolding getTranslationKeys_def by (simp add: keys_fold_set)

lemma distinct_getTranslationKeys: "distinct (getTranslationKeys m)"
  unfolding getTranslationKeys_def by (simp add: keys_fold_distinct)

lemma set_getInsertedTranslationKeys:
  "set (getInsertedTranslationKeys old new) = set (getTranslationKeys new) - set (getTranslationKeys old)"
  unfolding getInsertedTranslationKeys_def Let_def arrayDiff_def arrayIncludes_def by auto

lemma set_getDeletedTranslationKeys:
  "set (getDeletedTranslationKeys old new) = set (getTranslationKeys old) - set (getTranslationKeys new)"
  unfolding getDeletedTranslationKeys_def Let_def arrayDiff_def arrayIncludes_def by auto


lemma getTranslation_truthy_key:
  assumes "getTranslation m l k = Inr v" and "truthy v"
  shows "\<exists>d. (l, d) \<in> set m \<and> k \<in> set (objectKeys d)"
proof -
  from assms(1) obtain d where d: "map_of m l = Some d" and v: "v = getProp d k"
    by (auto simp: getTranslation_def split: option.splits)
  from assms(2) v have "map_of d k \<noteq> None"
    by (auto simp: getProp_def split: option.splits)
  then have "k \<in> fst ` set d" by (simp add: map_of_eq_None_iff)
  with d show ?thesis by (auto simp: objectKeys_def dest: map_of_SomeD)
qed

lemma changedIn_iff:
  "changedIn old new l k \<longleftrightarrow>
     (\<exists>ov nv. getTranslation old l k = Inr ov \<and> getTranslation new l k = Inr nv
              \<and> truthy ov \<and> ov \<noteq> nv)"
  by (auto simp: changedIn_def split: sum.splits)

lemma updatedStep_Inr:
  assumes "updatedStep old new del l acc k = Inr r"
  shows "r = (if changedIn old new l k \<and> k \<notin> set del then acc @ [k] else acc)"
  using assms
  by (auto simp: updatedStep_def changedIn_iff arrayContains_iff
           split: sum.splits if_splits)

lemma inner_fold_set:
  "foldE (updatedStep old new del l) acc ks = Inr r \<Longrightarrow>
   set r = set acc \<union> {k \<in> set ks. changedIn old new l k \<and> k \<notin> set del}"
proof (induction ks arbitrary: acc)
  case Nil
  then show ?case by simp
next
  case (Cons k ks)
  from Cons.prems obtain a where a: "updatedStep old new del l acc k = Inr a"
    and rest: "foldE (updatedStep old new del l) a ks = Inr r"
    by (auto split: sum.splits)
  from Cons.IH [OF rest] updatedStep_Inr [OF a] show ?case by auto
qed

lemma outer_fold_set:
  "foldE (\<lambda>acc (l, d). foldE (updatedStep old new del l) acc (objectKeys d)) acc m = Inr r \<Longrightarrow>
   set r = set acc \<union> {k. \<exists>(l, d) \<in> set m. k \<in> set (objectKeys d)
                              \<and> changedIn old new l k \<and> k \<notin> set del}"
proof (induction m arbitrary: acc)
  case Nil
  then show ?case by simp
next
  case (Cons p m)
  obtain l d where p: "p = (l, d)" by (cases p)
  from Cons.prems p obtain a where a: "foldE (updatedStep old new del l) acc (objectKeys d) = Inr a"
    and rest: "foldE (\<lambda>acc (l, d). foldE (updatedStep old new del l) acc (objectKeys d)) a m = Inr r"
    by (auto split: sum.splits)
  from Cons.IH [OF rest] inner_fold_set [OF a] p show ?case by auto
qed

lemma updated_keys_characterised:
  assumes "getUpdatedTranslationKeys old new = Inr upd"
  shows "k \<in> set upd \<longleftrightarrow>
           k \<in> set (getTranslationKeys old) \<and> k \<in> set (getTranslationKeys new)
           \<and> (\<exists>l. changedIn old new l k)
           \<and> k \<notin> set (getDeletedTranslationKeys old new)"
proof -
  let ?del = "getDeletedTranslationKeys old new"
  from assms have "set upd = {k. \<exists>(l, d) \<in> set old. k \<in> set (objectKeys d)
                              \<and> changedIn old new l k \<and> k \<notin> set ?del}"
    unfolding getUpdatedTranslationKeys_def Let_def
    using outer_fold_set [of old new ?del "[]" old upd] by simp
  moreover have "(\<exists>(l, d) \<in> set old. k \<in> set (objectKeys d) \<and> changedIn old new l k)
                 \<longleftrightarrow> (\<exists>l. changedIn old new l k)"
  proof
    assume "\<exists>l. changedIn old new l k"
    then obtain l ov where "getTranslation old l k = Inr ov" "truthy ov" and c: "changedIn old new l k"
      by (auto simp: changedIn_iff)
    from getTranslation_truthy_key [OF this(1,2)] obtain d0 where "(l, d0) \<in> set old" "k \<in> set (objectKeys d0)"
      by blast
    moreover from c obtain ov nv d where "map_of old l = Some d" "getProp d k = ov" "truthy ov"
      by (auto simp: changedIn_iff getTranslation_def split: option.splits)
    ultimately show "\<exists>(l, d) \<in> set old. k \<in> set (objectKeys d) \<and> changedIn old new l k"
      using c by blast
  qed blast
  moreover have "(\<exists>l. changedIn old new l k) \<Longrightarrow> k \<in> set (getTranslationKeys old)"
    using getTranslation_truthy_key
    by (fastforce simp: changedIn_iff set_getTranslationKeys)
  ultimately show ?thesis
    by (auto simp: set_getDeletedTranslationKeys)
qed

lemma foldE_returns:
  "(\<And>a x. x \<in> set xs \<Longrightarrow> \<exists>a'. f a x = Inr a') \<Longrightarrow> \<exists>r. foldE f a xs = Inr r"
proof (induction xs arbitrary: a)
  case Nil
  then show ?case by simp
next
  case (Cons x xs)
  from Cons.prems [of x a] obtain a' where a': "f a x = Inr a'" by auto
  from Cons.IH [of a'] Cons.prems obtain r where "foldE f a' xs = Inr r" by auto
  with a' show ?case by simp
qed

lemma updatedStep_returns:
  "map_of old l \<noteq> None \<Longrightarrow> map_of new l \<noteq> None
     \<Longrightarrow> \<exists>acc'. updatedStep old new del l acc k = Inr acc'"
  by (auto simp: updatedStep_def getTranslation_def split: option.splits)

lemma updated_keys_return:
  assumes "set (objectKeys old) \<subseteq> set (objectKeys new)"
  shows "\<exists>updated. getUpdatedTranslationKeys old new = Inr updated"
  unfolding getUpdatedTranslationKeys_def Let_def
proof (rule foldE_returns)
  fix acc :: "string list" and p
  assume p: "p \<in> set old"
  obtain l d where ld: "p = (l, d)" by (cases p)
  with p have "l \<in> set (objectKeys old)" by (force simp: objectKeys_def)
  with assms have "l \<in> set (objectKeys new)" by blast
  then have n: "map_of new l \<noteq> None" by (simp add: objectKeys_def map_of_eq_None_iff)
  from p ld have o: "map_of old l \<noteq> None"
    by (metis weak_map_of_SomeI option.distinct(1))
  have "\<exists>r. foldE (updatedStep old new (getDeletedTranslationKeys old new) l) acc
               (objectKeys d) = Inr r"
    by (rule foldE_returns) (rule updatedStep_returns [OF o n])
  then show "\<exists>a'. (case p of (localKey, localeObj) \<Rightarrow>
                       foldE (updatedStep old new (getDeletedTranslationKeys old new) localKey)
                         acc (objectKeys localeObj)) = Inr a'"
    unfolding ld by simp
qed

lemma foldE_unchanged:
  "(\<And>x. x \<in> set xs \<Longrightarrow> f a x = Inr a) \<Longrightarrow> foldE f a xs = Inr a"
  by (induction xs) auto

lemma updatedStep_same:
  "map_of m l \<noteq> None \<Longrightarrow> updatedStep m m del l acc k = Inr acc"
  by (auto simp: updatedStep_def getTranslation_def split: option.splits)

lemma updated_self: "getUpdatedTranslationKeys m m = Inr []"
proof -
  have "foldE (updatedStep m m del l) acc (objectKeys d) = Inr acc" if "(l, d) \<in> set m" for l d del acc
  proof (rule foldE_unchanged)
    fix k
    from that have "map_of m l \<noteq> None"
      by (metis weak_map_of_SomeI option.distinct(1))
    then show "updatedStep m m del l acc k = Inr acc" by (rule updatedStep_same)
  qed
  then show ?thesis
    unfolding getUpdatedTranslationKeys_def Let_def
    by (intro foldE_unchanged) auto
qed

lemma inserted_self: "getInsertedTranslationKeys m m = []"
  by (simp add: getInsertedTranslationKeys_def Let_def)

lemma deleted_self: "getDeletedTranslationKeys m m = []"
  by (simp add: getDeletedTranslationKeys_def Let_def)

lemma scenario_inserted: "getInsertedTranslationKeys scenarioPrevious scenarioCurrent = [''b'']"
  by code_simp

lemma scenario_deleted: "getDeletedTranslationKeys scenarioPrevious scenarioCurrent = [''z'']"
  by code_simp

lemma scenario_updated: "getUpdatedTranslationKeys scenarioPrevious scenarioCurrent = Inr [''a'']"
  by code_simp

lemma scenarioD_inserted: "getInsertedTranslationKeys scenarioD_previous scenarioD_current = []"
  by code_simp

lemma scenarioD_deleted: "getDeletedTranslationKeys scenarioD_previous scenarioD_current = [''z'']"
  by code_simp

lemma scenarioD_updated: "getUpdatedTranslationKeys scenarioD_previous scenarioD_current = Inr []"
  by code_simp

section \<open>The updated keys\<close>

text \<open>
  C1. A key is classified as updated exactly when it is in both canonical key sets, some
  locale present in both maps has a truthy previous value that differs from the current
  one, and the key is not deleted. Whenever the function returns this is what it computes
  (\<open>updated_keys_characterised\<close>), and it returns when every locale of the previous
  map is a locale of the current one (\<open>updated_keys_return\<close>), but not for every pair: with
  previous \<^verbatim>\<open>{en: {a: "hi"}, fr: {a: "salut"}}\<close> and current \<^verbatim>\<open>{en: {a: "hello"}}\<close> the
  key \<open>a\<close> meets every condition of the claim through the locale \<open>en\<close>, and the loop
  throws a TypeError when it reads the removed locale \<open>fr\<close> of the current map.
\<close>

theorem updated_keys_throw_when_locale_removed:
  "getUpdatedTranslationKeys
       [(''en'', [(''a'', Str ''hi'')]), (''fr'', [(''a'', Str ''salut'')])]
       [(''en'', [(''a'', Str ''hello'')])] = Inl TypeError
   \<and> ''a'' \<in> set (getTranslationKeys
                      [(''en'', [(''a'', Str ''hi'')]), (''fr'', [(''a'', Str ''salut'')])])
   \<and> ''a'' \<in> set (getTranslationKeys [(''en'', [(''a'', Str ''hello'')])])
   \<and> changedIn [(''en'', [(''a'', Str ''hi'')]), (''fr'', [(''a'', Str ''salut'')])]
                [(''en'', [(''a'', Str ''hello'')])] ''en'' ''a''
   \<and> ''a'' \<notin> set (getDeletedTranslationKeys
                      [(''en'', [(''a'', Str ''hi'')]), (''fr'', [(''a'', Str ''salut'')])]
                      [(''en'', [(''a'', Str ''hello'')])])"
  by code_simp

section \<open>When a journal is written\<close>

text \<open>
  C5. \<open>isJournalGenerated\<close> is true exactly when the inserted keys are non-empty, or the
  updated keys are non-empty, or deletions are shown and the deleted keys are non-empty.
  Given the diff of two maps, the \<^verbatim>\<open>end\<close> callback writes no journal file if and only if
  nothing was inserted, nothing was updated, and nothing was deleted or deletions are
  hidden.
\<close>

theorem journal_generated_iff:
  "(isJournalGenerated ins upd del showDeleted \<longleftrightarrow>
      ins \<noteq> [] \<or> upd \<noteq> [] \<or> (showDeleted \<and> del \<noteq> []))
   \<and> (getUpdatedTranslationKeys old new = Inr updated \<longrightarrow>
        (journalFile (snd (onEnd toUpperCase opts wordCount new translationKeys old)) = None \<longleftrightarrow>
           getInsertedTranslationKeys old new = [] \<and> updated = []
           \<and> (getDeletedTranslationKeys old new = [] \<or> \<not> showDeletedInJournal opts)))"
  by (auto simp: isJournalGenerated_def onEnd_def noArtifacts_def Let_def split: sum.splits)

theorem journal_generated_iff_witness:
  "getUpdatedTranslationKeys scenarioD_previous scenarioD_current = Inr []
   \<and> journalFile (snd (onEnd asciiUpperCase (scenarioOpts False) scenarioWordCount scenarioD_current [''a'']
                         scenarioD_previous)) = None
   \<and> journalFile (snd (onEnd asciiUpperCase (scenarioOpts True) scenarioWordCount scenarioD_current [''a'']
                         scenarioD_previous)) \<noteq> None
   \<and> \<not> isJournalGenerated [] [] [''z''] False
   \<and> isJournalGenerated [] [] [''z''] True"
  using journal_generated_iff [where toUpperCase = asciiUpperCase and ins = "[]" and upd = "[]" and del = "[''z'']"
          and showDeleted = False and old = scenarioD_previous and new = scenarioD_current
          and updated = "[]" and opts = "scenarioOpts False" and wordCount = scenarioWordCount
          and translationKeys = "[''a'']"]
    journal_generated_iff [where toUpperCase = asciiUpperCase and ins = "[]" and upd = "[]" and del = "[''z'']"
          and showDeleted = True and old = scenarioD_previous and new = scenarioD_current
          and updated = "[]" and opts = "scenarioOpts True" and wordCount = scenarioWordCount
          and translationKeys = "[''a'']"]
  by (simp add: scenarioD_inserted scenarioD_deleted scenarioD_updated)

section \<open>The classifications exclude one another\<close>

text \<open>
  C6. For every pair of maps and every key: a key among the inserted keys is neither
  among the deleted nor among the updated keys, and a key among the deleted keys is
  neither among the inserted nor among the updated keys.
\<close>

theorem classification_exclusive:
  "(k \<in> set (getInsertedTranslationKeys old new) \<longrightarrow>
      k \<notin> set (getDeletedTranslationKeys old new)
      \<and> (\<forall>upd. getUpdatedTranslationKeys old new = Inr upd \<longrightarrow> k \<notin> set upd))
   \<and> (k \<in> set (getDeletedTranslationKeys old new) \<longrightarrow>
      k \<notin> set (getInsertedTranslationKeys old new)
      \<and> (\<forall>upd. getUpdatedTranslationKeys old new = Inr upd \<longrightarrow> k \<notin> set upd))"
  using updated_keys_characterised [of old new _ k]
  by (auto simp: set_getInsertedTranslationKeys set_getDeletedTranslationKeys)

theorem classification_exclusive_witness:
  "getInsertedTranslationKeys scenarioPrevious scenarioCurrent = [''b'']
   \<and> getDeletedTranslationKeys scenarioPrevious scenarioCurrent = [''z'']
   \<and> getUpdatedTranslationKeys scenarioPrevious scenarioCurrent = Inr [''a'']
   \<and> ''b'' \<notin> set (getDeletedTranslationKeys scenarioPrevious scenarioCurrent)
   \<and> ''b'' \<notin> set [''a'']
   \<and> ''z'' \<notin> set (getInsertedTranslationKeys scenarioPrevious scenarioCurrent)
   \<and> ''z'' \<notin> set [''a'']"
  using classification_exclusive [of "''b''" scenarioPrevious scenarioCurrent]
    classification_exclusive [of "''z''" scenarioPrevious scenarioCurrent]
  by (simp add: scenario_inserted scenario_deleted scenario_updated)

section \<open>An unchanged map\<close>

text \<open>
  C7. Diffing a translation map against itself gives no inserted, no updated and no
  deleted key, so \<open>isJournalGenerated\<close> is false whatever the toggle and the \<^verbatim>\<open>end\<close>
  callback writes no journal file; the witness is scenario A, previous = current =
  \<^verbatim>\<open>{en: {a: "hi"}, fr: {a: "salut"}}\<close>.
\<close>

theorem diff_of_unchanged_map_is_empty:
  "getInsertedTranslationKeys m m = []
   \<and> getUpdatedTranslationKeys m m = Inr []
   \<and> getDeletedTranslationKeys m m = []
   \<and> \<not> isJournalGenerated (getInsertedTranslationKeys m m) []
         (getDeletedTranslationKeys m m) showDeleted
   \<and> journalFile (snd (onEnd toUpperCase opts wordCount m translationKeys m)) = None"
  by (simp add: inserted_self deleted_self updated_self isJournalGenerated_def onEnd_def
        noArtifacts_def Let_def split: sum.splits)

theorem diff_of_unchanged_map_is_empty_witness:
  "getInsertedTranslationKeys scenarioA scenarioA = []
   \<and> getUpdatedTranslationKeys scenarioA scenarioA = Inr []
   \<and> getDeletedTranslationKeys scenarioA scenarioA = []
   \<and> \<not> isJournalGenerated [] [] [] True
   \<and> \<not> isJournalGenerated [] [] [] False
   \<and> journalFile (snd (onEnd asciiUpperCase (scenarioOpts True) scenarioWordCount scenarioA [''a''] scenarioA)) = None
   \<and> journalFile (snd (onEnd asciiUpperCase (scenarioOpts False) scenarioWordCount scenarioA [''a''] scenarioA)) = None"
  using diff_of_unchanged_map_is_empty [where toUpperCase = asciiUpperCase and m = scenarioA and showDeleted = True
          and opts = "scenarioOpts True" and wordCount = scenarioWordCount and translationKeys = "[''a'']"]
    diff_of_unchanged_map_is_empty [where toUpperCase = asciiUpperCase and m = scenarioA and showDeleted = False
          and opts = "scenarioOpts False" and wordCount = scenarioWordCount and translationKeys = "[''a'']"]
  by (simp add: inserted_self deleted_self)

lemma writeJournalRow_append:
  "writeJournalRow toUpperCase writer k m old kc names showOld t
     = writer @ writeJournalRow toUpperCase [] k m old kc names showOld t"
  by (simp add: writeJournalRow_def Let_def)

lemma writeJournalRows_map:
  "writeJournalRows toUpperCase writer ks m old kc names showOld t
     = writer @ concat (map (\<lambda>k. writeJournalRow toUpperCase [] (Some k) m old kc names showOld (Str t)) ks)"
proof (induction ks arbitrary: writer)
  case Nil
  then show ?case by (simp add: writeJournalRows_def)
next
  case (Cons k ks)
  have "writeJournalRows toUpperCase writer (k # ks) m old kc names showOld t
          = writeJournalRows toUpperCase (writeJournalRow toUpperCase writer (Some k) m old kc names showOld (Str t))
              ks m old kc names showOld t"
    by (simp add: writeJournalRows_def)
  then show ?case
    by (simp add: Cons.IH writeJournalRow_append [where writer = writer])
qed

lemma journal_layout:
  "generateJournalFile toUpperCase m old ins upd del kc names showDeleted showOld
     = writeJournalRow toUpperCase [] None m old kc names showOld Undefined
       @ concat (map (\<lambda>k. writeJournalRow toUpperCase [] (Some k) m old kc names showOld (Str ''NEW'')) ins)
       @ concat (map (\<lambda>k. writeJournalRow toUpperCase [] (Some k) m old kc names showOld (Str ''UPDATE'')) upd)
       @ (if showDeleted
          then concat (map (\<lambda>k. writeJournalRow toUpperCase [] (Some k) m old kc names showOld (Str ''DELETE'')) del)
          else [])
       @ writeJournalRow toUpperCase [] None m old kc names showOld Undefined"
  unfolding generateJournalFile_def Let_def
  by (simp add: writeJournalRows_map UpdateType_INSERT_def UpdateType_UPDATE_def
        UpdateType_DELETE_def writeJournalRow_append [where writer = "_ @ _"])


section \<open>The metadata summary\<close>

text \<open>
  C2. The metadata row of a locale carries the number of translation keys of the locale
  as NUMBER_OF_KEYS; for \<^verbatim>\<open>fr\<close> with \<^verbatim>\<open>{a: "bonjour", b: ""}\<close> that is 2. The function
  declares \<open>keyCount = 0\<close> and never increments it in the loop over the keys, so the
  row it writes for this locale has NUMBER_OF_KEYS = 0, whatever \<open>wordCount\<close> returns for
  the two values (when it throws for one of them no row is written); with one word
  counted for \<^verbatim>\<open>bonjour\<close> and none for the empty string the row has NUMBER_OF_WORDS = 1
  and NUMBER_OF_KEYS = 0.
\<close>

theorem meta_row_key_count_is_zero:
  "writeMetaDataRow wordCount [] ''fr''
     [(''fr'', [(''a'', Str ''bonjour''), (''b'', Str [])])]
   = (case wordCount (Str ''bonjour'') of
        Inl e \<Rightarrow> Inl e
      | Inr n \<Rightarrow>
          (case wordCount (Str []) of
             Inl e \<Rightarrow> Inl e
           | Inr m \<Rightarrow> Inr [[(''LOCALE'', Str ''fr''), (''NUMBER_OF_WORDS'', Num (n + m)),
                            (''NUMBER_OF_KEYS'', Num 0)]]))
   \<and> writeMetaDataRow scenarioWordCount [] ''fr''
         [(''fr'', [(''a'', Str ''bonjour''), (''b'', Str [])])]
       = Inr [[(''LOCALE'', Str ''fr''), (''NUMBER_OF_WORDS'', Num 1),
               (''NUMBER_OF_KEYS'', Num 0)]]"
  by (simp add: writeMetaDataRow_def setProp_def objectKeys_def getProp_def split: sum.splits)

section \<open>The journal\<close>

text \<open>
  C4. The journal has exactly one row per key that is inserted, updated or (when shown)
  deleted, the inserted rows (NEW) first, then the updated rows (UPDATE), then the
  deleted rows (DELETE), between two separator rows. The layout is as claimed
  (\<open>journal_layout\<close>), one row per entry of each list, but the list of updated keys
  holds a key once for every locale in which it changed: with previous
  \<^verbatim>\<open>{en: {a: "hi"}, fr: {a: "salut"}}\<close> and current
  \<^verbatim>\<open>{en: {a: "hello"}, fr: {a: "bonjour"}}\<close> the updated keys are \<open>a, a\<close> and the
  journal has two identical UPDATE rows for \<open>a\<close>.
\<close>

theorem journal_repeats_updated_key:
  "getInsertedTranslationKeys bothChangedPrevious bothChangedCurrent = []
   \<and> getUpdatedTranslationKeys bothChangedPrevious bothChangedCurrent = Inr [''a'', ''a'']
   \<and> getDeletedTranslationKeys bothChangedPrevious bothChangedCurrent = []
   \<and> generateJournalFile asciiUpperCase bothChangedCurrent bothChangedPrevious [] [''a'', ''a''] []
        ''SYSTEM_KEY'' [] False False
      = [[(''SYSTEM_KEY'', Null), (''EN'', Undefined), (''FR'', Undefined),
          (''UPDATE_TYPE'', Undefined)],
         [(''SYSTEM_KEY'', Str ''a''), (''EN'', Str ''hello''), (''FR'', Str ''bonjour''),
          (''UPDATE_TYPE'', Str ''UPDATE'')],
         [(''SYSTEM_KEY'', Str ''a''), (''EN'', Str ''hello''), (''FR'', Str ''bonjour''),
          (''UPDATE_TYPE'', Str ''UPDATE'')],
         [(''SYSTEM_KEY'', Null), (''EN'', Undefined), (''FR'', Undefined),
          (''UPDATE_TYPE'', Undefined)]]"
  by code_simp

section \<open>From a column name back to the locale\<close>




text \<open>
  A configured name is compared as it was typed with a column name that was upper-cased
  when the export was written: the name \<^verbatim>\<open>English\<close> of the README is written as the column
  \<^verbatim>\<open>ENGLISH\<close>, which matches no configured name and comes back as \<^verbatim>\<open>english\<close>.
\<close>

lemma configured_name_is_not_recovered:
  "getLocaleFromColumnName asciiLowerCase
     (getColumnNameFromLocale asciiUpperCase ''en'' [(''en'', ''English''), (''fr'', ''French'')])
     [(''en'', ''English''), (''fr'', ''French'')] = ''english''"
  by code_simp

lemma map_of_setProp: "map_of (setProp obj k v) = (map_of obj)(k \<mapsto> v)"
  by (simp add: setProp_def update_conv')

lemma keys_are_dom: "set (objectKeys obj) = dom (map_of obj)"
  by (simp add: objectKeys_def dom_map_of_conv_image_fst)

lemma headers_flag:
  "snd (foldl (headerStep toLowerCase opts) (m, b) hs)
     = (b \<or> translationKeyColumnName opts \<in> set hs)"
  by (induction hs arbitrary: m b) (auto simp: headerStep_def)

lemma headers_map:
  "map_of (fst (foldl (headerStep toLowerCase opts) (m, b) hs)) l =
     (case map_of m l of
        Some d \<Rightarrow> Some d
      | None \<Rightarrow> if l \<in> (\<lambda>h. getLocaleFromColumnName toLowerCase h (localeColumnNames opts))
                        ` {h \<in> set hs. h \<noteq> translationKeyColumnName opts}
                then Some [] else None)"
proof (induction hs arbitrary: m b)
  case Nil
  then show ?case by (simp split: option.splits)
next
  case (Cons h hs)
  show ?case
  proof (cases "h = translationKeyColumnName opts")
    case True
    then have "headerStep toLowerCase opts (m, b) h = (m, True)"
      by (simp add: headerStep_def)
    with Cons.IH [of m True] True show ?thesis
      by (auto split: option.splits)
  next
    case False
    show ?thesis
    proof (cases "map_of m (getLocaleFromColumnName toLowerCase h (localeColumnNames opts))")
      case None
      with False have "headerStep toLowerCase opts (m, b) h
          = (setProp m (getLocaleFromColumnName toLowerCase h (localeColumnNames opts)) [], b)"
        by (simp add: headerStep_def)
      with Cons.IH [of "setProp m (getLocaleFromColumnName toLowerCase h
                                     (localeColumnNames opts)) []" b]
        False None
      show ?thesis
        by (auto simp: map_of_setProp split: option.splits if_splits)
    next
      case (Some d)
      with False have "headerStep toLowerCase opts (m, b) h = (m, b)"
        by (simp add: headerStep_def)
      with Cons.IH [of m b] False Some show ?thesis
        by (auto split: option.splits if_splits)
    qed
  qed
qed

text \<open>
  What the \<^verbatim>\<open>headers\<close> callback does with a header row: without the translation-key
  column it throws; with it, every other column has an empty dictionary under its locale
  in the previous map, and the map has no other locale.
\<close>

lemma headers_callback_check:
  "(translationKeyColumnName opts \<notin> set headers \<longrightarrow>
      onHeaders toLowerCase opts [] headers = Inl NoTranslationKeyColumn)
   \<and> (translationKeyColumnName opts \<in> set headers \<longrightarrow>
      (\<exists>oldTranslationMap.
         onHeaders toLowerCase opts [] headers = Inr oldTranslationMap
         \<and> (\<forall>header \<in> set headers.
               header \<noteq> translationKeyColumnName opts \<longrightarrow>
               map_of oldTranslationMap
                 (getLocaleFromColumnName toLowerCase header (localeColumnNames opts)) = Some [])
         \<and> set (objectKeys oldTranslationMap)
             = (\<lambda>header. getLocaleFromColumnName toLowerCase header (localeColumnNames opts))
                 ` {header \<in> set headers. header \<noteq> translationKeyColumnName opts}))"
proof -
  obtain m' b' where f: "foldl (headerStep toLowerCase opts) ([], False) headers = (m', b')"
    by (cases "foldl (headerStep toLowerCase opts) ([], False) headers")
  from headers_flag [of toLowerCase opts "[]" False headers] f
  have b': "b' = (translationKeyColumnName opts \<in> set headers)" by simp
  have m': "map_of m' l =
       (if l \<in> (\<lambda>h. getLocaleFromColumnName toLowerCase h (localeColumnNames opts))
                  ` {h \<in> set headers. h \<noteq> translationKeyColumnName opts}
        then Some [] else None)" for l
    using headers_map [of toLowerCase opts "[]" False headers l] f by simp
  have r: "onHeaders toLowerCase opts [] headers
             = (if b' then Inr m' else Inl NoTranslationKeyColumn)"
    by (simp add: onHeaders_def f)
  have "set (objectKeys m')
          = (\<lambda>header. getLocaleFromColumnName toLowerCase header (localeColumnNames opts))
              ` {header \<in> set headers. header \<noteq> translationKeyColumnName opts}"
    unfolding keys_are_dom by (auto simp: dom_def m')
  with r b' m' show ?thesis by auto
qed

text \<open>
  When the parser delivers a header row without the translation-key column, the run ends
  with the error of the callback and writes no file.
\<close>

lemma header_row_without_key_column_ends_run:
  assumes "getTranslationMap fs getFlattenTranslations (inputDir opts) (inputFile opts)
             = Inr translationMap"
    and "translationKeyColumnName opts \<notin> set headers"
  shows "exportTranslations toUpperCase toLowerCase opts fs getFlattenTranslations wordCount
           (Some (HeadersDataEnd headers rows))
         = (Some NoTranslationKeyColumn, noArtifacts)"
proof -
  from assms(2) have "onHeaders toLowerCase opts [] headers = Inl NoTranslationKeyColumn"
    using headers_callback_check [of opts headers toLowerCase] by simp
  with assms(1) show ?thesis by (simp add: exportTranslations_def)
qed

text \<open>
  When the parser delivers no header row, the callback with the check never runs: the
  \<^verbatim>\<open>end\<close> callback diffs against the empty previous map.
\<close>

lemma export_without_header_row:
  "exportTranslations toUpperCase toLowerCase opts fs getFlattenTranslations wordCount
     (Some EndOnly)
   = (case getTranslationMap fs getFlattenTranslations (inputDir opts) (inputFile opts) of
        Inl e \<Rightarrow> (Some e, noArtifacts)
      | Inr translationMap \<Rightarrow>
          onEnd toUpperCase opts wordCount translationMap
            (getTranslationKeys translationMap) [])"
  by (simp add: exportTranslations_def split: sum.splits)

lemma scenario_locales: "getLocales scenarioFs ''app/locales/'' = Inr [''en'', ''fr'']"
  by code_simp

lemma scenario_load:
  "getTranslationMap scenarioFs scenarioFlatten ''app/locales/'' ''translations.js''
     = Inr [(''en'', [(''a'', Str ''hi'')]), (''fr'', [])]"
  by code_simp

lemma filterE_Inl:
  "filterE p xs = Inl e \<Longrightarrow> \<exists>x \<in> set xs. p x = Inl e"
  by (induction xs arbitrary: e) (auto split: sum.splits)

lemma getLocales_Inl:
  assumes "getLocales fs dir = Inl e"
  shows "readdirSync fs dir = Inl e
         \<or> (\<exists>files. readdirSync fs dir = Inr files
                \<and> (\<exists>entry \<in> set files. statIsDirectory fs (dir @ entry) = Inl e))"
proof (cases "readdirSync fs dir")
  case (Inl e')
  with assms show ?thesis by (simp add: getLocales_def)
next
  case (Inr files)
  with assms have "filterE (\<lambda>entry. statIsDirectory fs (dir @ entry)) files = Inl e"
    by (simp add: getLocales_def)
  from filterE_Inl [OF this] Inr show ?thesis by simp
qed

lemma loadLocale_Inr:
  assumes "loadLocale fs flat dir fname acc lc = Inr acc'"
  shows "\<exists>d. map_of acc' = (map_of acc)(lc \<mapsto> d)
             \<and> (\<not> existsSync fs (dir @ lc @ ''/'' @ fname) \<longrightarrow> d = [])"
  using assms
  by (auto simp: loadLocale_def Let_def map_of_setProp split: if_splits sum.splits)

lemma loadLocale_Inl:
  assumes "loadLocale fs flat dir fname acc lc = Inl e"
  shows "existsSync fs (dir @ lc @ ''/'' @ fname)
         \<and> (readFileSync fs (dir @ lc @ ''/'' @ fname) = Inl e
            \<or> (\<exists>data. readFileSync fs (dir @ lc @ ''/'' @ fname) = Inr data
                       \<and> flat data = Inl e))"
  using assms
  by (auto simp: loadLocale_def Let_def split: if_splits sum.splits)

lemma load_fold_Inl:
  "foldE (loadLocale fs flat dir fname) acc ls = Inl e \<Longrightarrow>
   \<exists>lc \<in> set ls. existsSync fs (dir @ lc @ ''/'' @ fname)
         \<and> (readFileSync fs (dir @ lc @ ''/'' @ fname) = Inl e
            \<or> (\<exists>data. readFileSync fs (dir @ lc @ ''/'' @ fname) = Inr data
                       \<and> flat data = Inl e))"
proof (induction ls arbitrary: acc)
  case Nil
  then show ?case by simp
next
  case (Cons x xs)
  show ?case
  proof (cases "loadLocale fs flat dir fname acc x")
    case (Inl e')
    with Cons.prems have "e' = e" by simp
    with Inl have "loadLocale fs flat dir fname acc x = Inl e" by simp
    from loadLocale_Inl [OF this] show ?thesis by simp
  next
    case (Inr acc')
    with Cons.prems have "foldE (loadLocale fs flat dir fname) acc' xs = Inl e" by simp
    from Cons.IH [OF this] show ?thesis by auto
  qed
qed

lemma load_fold_keeps:
  "foldE (loadLocale fs flat dir fname) acc ls = Inr m \<Longrightarrow> lc \<notin> set ls
     \<Longrightarrow> map_of m lc = map_of acc lc"
proof (induction ls arbitrary: acc)
  case Nil
  then show ?case by simp
next
  case (Cons x xs)
  from Cons.prems(1) obtain acc' where s: "loadLocale fs flat dir fname acc x = Inr acc'"
    and r: "foldE (loadLocale fs flat dir fname) acc' xs = Inr m"
    by (auto split: sum.splits)
  from loadLocale_Inr [OF s] Cons.prems(2) have "map_of acc' lc = map_of acc lc"
    by auto
  with Cons.IH [OF r] Cons.prems(2) show ?case by simp
qed

lemma load_fold_Inr:
  "foldE (loadLocale fs flat dir fname) acc ls = Inr m \<Longrightarrow> lc \<in> set ls \<Longrightarrow>
   \<not> existsSync fs (dir @ lc @ ''/'' @ fname) \<Longrightarrow> map_of m lc = Some []"
proof (induction ls arbitrary: acc)
  case Nil
  then show ?case by simp
next
  case (Cons x xs)
  from Cons.prems(1) obtain acc' where s: "loadLocale fs flat dir fname acc x = Inr acc'"
    and r: "foldE (loadLocale fs flat dir fname) acc' xs = Inr m"
    by (auto split: sum.splits)
  show ?case
  proof (cases "lc \<in> set xs")
    case True
    from Cons.IH [OF r True Cons.prems(3)] show ?thesis .
  next
    case False
    with Cons.prems(2) have x: "x = lc" by simp
    from loadLocale_Inr [OF s] x Cons.prems(3) have "map_of acc' lc = Some []" by auto
    with load_fold_keeps [OF r False] show ?thesis by simp
  qed
qed

lemma row_fold_keys:
  "set (objectKeys (foldl (\<lambda>row (localKey, localeObj).
                            setProp row (c localKey) (v localeObj)) row0 m))
     = set (objectKeys row0) \<union> c ` set (objectKeys m)"
proof (induction m arbitrary: row0)
  case Nil
  then show ?case by (simp add: objectKeys_def)
next
  case (Cons p m)
  obtain l d where p: "p = (l, d)" by (cases p)
  have "set (objectKeys (setProp row0 (c l) (v d))) = insert (c l) (set (objectKeys row0))"
    by (simp add: setProp_def objectKeys_def dom_update)
  then show ?case
    unfolding p by (simp add: Cons.IH) (auto simp: objectKeys_def)
qed

lemma translation_row_columns:
  "r \<in> set (writeTranslationRow toUpperCase [] k m kc names) \<Longrightarrow>
   lc \<in> set (objectKeys m) \<Longrightarrow>
   getLocaleColumnName toUpperCase lc names \<in> set (objectKeys r)"
  by (simp add: writeTranslationRow_def Let_def row_fold_keys)

lemma writeTranslationRow_append:
  "writeTranslationRow toUpperCase writer k m kc names
     = writer @ writeTranslationRow toUpperCase [] k m kc names"
  by (simp add: writeTranslationRow_def Let_def)

lemma writeTranslationRow_one:
  "length (writeTranslationRow toUpperCase [] k m kc names) = 1"
  by (simp add: writeTranslationRow_def Let_def)

lemma translation_rows_fold:
  "foldl (\<lambda>writer translationKey.
            writeTranslationRow toUpperCase writer (Some translationKey) m kc names)
         writer ks
     = writer @ concat (map (\<lambda>k. writeTranslationRow toUpperCase [] (Some k) m kc names) ks)"
proof (induction ks arbitrary: writer)
  case Nil
  then show ?case by simp
next
  case (Cons k ks)
  show ?case
    by (simp add: Cons.IH writeTranslationRow_append [where writer = writer])
qed

lemma translation_file_layout:
  "generateTranslationFile toUpperCase m ks kc names
     = writeTranslationRow toUpperCase [] None m kc names
       @ concat (map (\<lambda>k. writeTranslationRow toUpperCase [] (Some k) m kc names) ks)
       @ writeTranslationRow toUpperCase [] None m kc names"
  unfolding generateTranslationFile_def Let_def
  by (simp add: translation_rows_fold writeTranslationRow_append [where writer = "_ @ _"])

lemma translation_file_length:
  "length (generateTranslationFile toUpperCase m ks kc names) = length ks + 2"
proof -
  have "length (concat (map (\<lambda>k. writeTranslationRow toUpperCase [] (Some k) m kc names) ks))
          = length ks"
    by (induction ks) (simp_all add: writeTranslationRow_one)
  then show ?thesis
    unfolding translation_file_layout by (simp add: writeTranslationRow_one)
qed

lemma translation_file_columns:
  assumes "r \<in> set (generateTranslationFile toUpperCase m ks kc names)"
    and "lc \<in> set (objectKeys m)"
  shows "getLocaleColumnName toUpperCase lc names \<in> set (objectKeys r)"
proof -
  from assms(1) obtain k where "r \<in> set (writeTranslationRow toUpperCase [] k m kc names)"
    unfolding translation_file_layout by auto
  then show ?thesis using assms(2) by (rule translation_row_columns)
qed

lemma meta_words_Inl:
  "foldE (\<lambda>localeWordCount translationKey.
            case wordCount (getProp d translationKey) of
              Inl e \<Rightarrow> Inl e
            | Inr n \<Rightarrow> Inr (localeWordCount + n)) c ks = Inl e
   \<Longrightarrow> \<exists>k \<in> set ks. wordCount (getProp d k) = Inl e"
  by (induction ks arbitrary: c) (auto split: sum.splits)

lemma meta_row_append:
  "writeMetaDataRow wordCount writer l m
     = (case writeMetaDataRow wordCount [] l m of
          Inl e \<Rightarrow> Inl e
        | Inr rs \<Rightarrow> Inr (writer @ rs))"
  by (simp add: writeMetaDataRow_def Let_def split: option.splits sum.splits)

lemma meta_row_one:
  "writeMetaDataRow wordCount [] l m = Inr rs \<Longrightarrow> \<exists>r. rs = [r]"
  by (auto simp: writeMetaDataRow_def Let_def split: option.splits sum.splits)

lemma meta_row_Inl:
  assumes "writeMetaDataRow wordCount [] l m = Inl e" and "map_of m l = Some d"
  shows "\<exists>k \<in> set (objectKeys d). wordCount (getProp d k) = Inl e"
  using assms meta_words_Inl [of wordCount d 0 "objectKeys d" e]
  by (auto simp: writeMetaDataRow_def Let_def split: sum.splits)

lemma meta_rows_fold_Inr:
  "foldE (\<lambda>writer (localKey, localeObj). writeMetaDataRow wordCount writer localKey m)
         writer entries = Inr rows
   \<Longrightarrow> set rows = set writer
         \<union> {r. \<exists>(l, d) \<in> set entries. writeMetaDataRow wordCount [] l m = Inr [r]}"
proof (induction entries arbitrary: writer)
  case Nil
  then show ?case by simp
next
  case (Cons p entries)
  obtain l d where p: "p = (l, d)" by (cases p)
  from Cons.prems obtain w' where w': "writeMetaDataRow wordCount writer l m = Inr w'"
    and f: "foldE (\<lambda>writer (localKey, localeObj).
                     writeMetaDataRow wordCount writer localKey m) w' entries = Inr rows"
    unfolding p by (auto split: sum.splits)
  from w' obtain rs where rs: "writeMetaDataRow wordCount [] l m = Inr rs"
    and "w' = writer @ rs"
    by (subst (asm) meta_row_append) (auto split: sum.splits)
  moreover from meta_row_one [OF rs] obtain r where "rs = [r]" by blast
  ultimately have r: "writeMetaDataRow wordCount [] l m = Inr [r]" and w: "w' = writer @ [r]"
    by simp_all
  have "writeMetaDataRow wordCount [] l m = Inr [r'] \<longleftrightarrow> r' = r" for r'
    using r by auto
  with Cons.IH [OF f] w show ?case
    unfolding p by auto
qed

lemma meta_rows_fold_Inl:
  "foldE (\<lambda>writer (localKey, localeObj). writeMetaDataRow wordCount writer localKey m)
         writer entries = Inl e
   \<Longrightarrow> \<exists>(l, d) \<in> set entries. writeMetaDataRow wordCount [] l m = Inl e"
proof (induction entries arbitrary: writer)
  case Nil
  then show ?case by simp
next
  case (Cons p entries)
  obtain l d where p: "p = (l, d)" by (cases p)
  show ?case
  proof (cases "writeMetaDataRow wordCount writer l m")
    case (Inl e')
    with Cons.prems have "e' = e" unfolding p by simp
    with Inl have "writeMetaDataRow wordCount [] l m = Inl e"
      by (subst (asm) meta_row_append) (auto split: sum.splits)
    then show ?thesis unfolding p by simp
  next
    case (Inr w')
    with Cons.prems have "foldE (\<lambda>writer (localKey, localeObj).
                     writeMetaDataRow wordCount writer localKey m) w' entries = Inl e"
      unfolding p by simp
    from Cons.IH [OF this] show ?thesis by auto
  qed
qed

lemma meta_row_of_empty_locale:
  "map_of m lc = Some [] \<Longrightarrow>
   writeMetaDataRow wordCount [] lc m
     = Inr [[(''LOCALE'', Str lc), (''NUMBER_OF_WORDS'', Num 0), (''NUMBER_OF_KEYS'', Num 0)]]"
  by (simp add: writeMetaDataRow_def setProp_def objectKeys_def)

lemma meta_file_has_empty_locale:
  assumes "map_of m lc = Some []"
  shows "case generateTranslationMetaFile wordCount m of
           Inl e \<Rightarrow>
             (\<exists>l d. map_of m l = Some d
                \<and> (\<exists>k \<in> set (objectKeys d). wordCount (getProp d k) = Inl e))
         | Inr rows \<Rightarrow>
             [(''LOCALE'', Str lc), (''NUMBER_OF_WORDS'', Num 0), (''NUMBER_OF_KEYS'', Num 0)]
               \<in> set rows"
proof (cases "generateTranslationMetaFile wordCount m")
  case (Inl e)
  then have "foldE (\<lambda>writer (localKey, localeObj). writeMetaDataRow wordCount writer localKey m)
               [[(''LOCALE'', Str []), (''NUMBER_OF_KEYS'', Str []),
                 (''NUMBER_OF_WORDS'', Str [])]] m = Inl e"
    by (simp add: generateTranslationMetaFile_def)
  from meta_rows_fold_Inl [OF this] obtain l d0 where in_m: "(l, d0) \<in> set m"
    and err: "writeMetaDataRow wordCount [] l m = Inl e"
    by auto
  from in_m obtain d where d: "map_of m l = Some d"
    by (metis weak_map_of_SomeI)
  from meta_row_Inl [OF err d] d Inl show ?thesis by auto
next
  case (Inr rows)
  then have "foldE (\<lambda>writer (localKey, localeObj). writeMetaDataRow wordCount writer localKey m)
               [[(''LOCALE'', Str []), (''NUMBER_OF_KEYS'', Str []),
                 (''NUMBER_OF_WORDS'', Str [])]] m = Inr rows"
    by (simp add: generateTranslationMetaFile_def)
  from meta_rows_fold_Inr [OF this]
  have s: "{r. \<exists>(l, d) \<in> set m. writeMetaDataRow wordCount [] l m = Inr [r]} \<subseteq> set rows"
    by auto
  from assms obtain d where "(lc, d) \<in> set m" by (auto dest: map_of_SomeD)
  with meta_row_of_empty_locale [OF assms, of wordCount] s
  have "[(''LOCALE'', Str lc), (''NUMBER_OF_WORDS'', Num 0), (''NUMBER_OF_KEYS'', Num 0)]
          \<in> set rows"
    by blast
  with Inr show ?thesis by simp
qed

section \<open>Rebuilding the previous map: the header\<close>

text \<open>
  C8. When no header column of the earlier export equals the configured translation-key
  column name, reconstruction raises a fatal error that aborts the run. The check is in
  the \<^verbatim>\<open>headers\<close> callback (\<open>headers_callback_check\<close>,
  \<open>header_row_without_key_column_ends_run\<close>) and nowhere else, and the parser does not
  call it for an earlier export that has no header row, an empty file: no column of that
  file is the translation-key column, and the run raises no error, takes the previous map
  to be empty and writes its files, the journal listing every key as NEW.
\<close>

theorem empty_export_raises_no_error:
  "exportTranslations asciiUpperCase asciiLowerCase (scenarioOpts False) scenarioFs
     scenarioFlatten scenarioWordCount (Some EndOnly)
   = (None,
      \<lparr>translationFile =
         Some [[(''SYSTEM_KEY'', Null), (''EN'', Undefined), (''FR'', Undefined)],
               [(''SYSTEM_KEY'', Str ''a''), (''EN'', Str ''hi''), (''FR'', Undefined)],
               [(''SYSTEM_KEY'', Null), (''EN'', Undefined), (''FR'', Undefined)]],
       journalFile =
         Some [[(''SYSTEM_KEY'', Null), (''EN'', Undefined), (''FR'', Undefined),
                (''UPDATE_TYPE'', Undefined)],
               [(''SYSTEM_KEY'', Str ''a''), (''EN'', Str ''hi''), (''FR'', Undefined),
                (''UPDATE_TYPE'', Str ''NEW'')],
               [(''SYSTEM_KEY'', Null), (''EN'', Undefined), (''FR'', Undefined),
                (''UPDATE_TYPE'', Undefined)]],
       metaDataFile =
         Some [[(''LOCALE'', Str []), (''NUMBER_OF_KEYS'', Str []),
                (''NUMBER_OF_WORDS'', Str [])],
               [(''LOCALE'', Str ''en''), (''NUMBER_OF_WORDS'', Num 1),
                (''NUMBER_OF_KEYS'', Num 0)],
               [(''LOCALE'', Str ''fr''), (''NUMBER_OF_WORDS'', Num 0),
                (''NUMBER_OF_KEYS'', Num 0)]]\<rparr>)"
  by code_simp

lemma scenario_export:
  "generateTranslationFile asciiUpperCase [(''en'', [(''a'', Str ''hi'')]), (''fr'', [])]
     (getTranslationKeys [(''en'', [(''a'', Str ''hi'')]), (''fr'', [])]) ''SYSTEM_KEY'' []
   = [[(''SYSTEM_KEY'', Null), (''EN'', Undefined), (''FR'', Undefined)],
      [(''SYSTEM_KEY'', Str ''a''), (''EN'', Str ''hi''), (''FR'', Undefined)],
      [(''SYSTEM_KEY'', Null), (''EN'', Undefined), (''FR'', Undefined)]]"
  by code_simp

lemma scenario_meta:
  "generateTranslationMetaFile scenarioWordCount [(''en'', [(''a'', Str ''hi'')]), (''fr'', [])]
   = Inr [[(''LOCALE'', Str []), (''NUMBER_OF_KEYS'', Str []), (''NUMBER_OF_WORDS'', Str [])],
          [(''LOCALE'', Str ''en''), (''NUMBER_OF_WORDS'', Num 1), (''NUMBER_OF_KEYS'', Num 0)],
          [(''LOCALE'', Str ''fr''), (''NUMBER_OF_WORDS'', Num 0), (''NUMBER_OF_KEYS'', Num 0)]]"
  by code_simp

section \<open>A locale without a translation file\<close>

text \<open>
  C10. For every locale directory whose translation file does not exist,
  \<open>getTranslationMap\<close> maps the locale to an empty dictionary. The missing file raises no
  error: an error of the loader is one thrown by reading the input directory, by the
  directory test of one of its entries, or by reading or parsing a translation file that
  exists. The locale is a key of the map; the consolidated export, which has its two
  separator rows and one row per key, has the column of the locale in every row, the first
  included; and the metadata summary, unless the word counter throws on a value of the
  map, has the row of the locale, with no word.
\<close>

theorem missing_translation_file_gives_empty_locale:
  "case getTranslationMap fs getFlattenTranslations dir fname of
     Inl e \<Rightarrow>
       readdirSync fs dir = Inl e
       \<or> (\<exists>files. readdirSync fs dir = Inr files
              \<and> (\<exists>entry \<in> set files. statIsDirectory fs (dir @ entry) = Inl e))
       \<or> (\<exists>locales. getLocales fs dir = Inr locales
              \<and> (\<exists>locale \<in> set locales.
                     existsSync fs (dir @ locale @ ''/'' @ fname)
                     \<and> (readFileSync fs (dir @ locale @ ''/'' @ fname) = Inl e
                        \<or> (\<exists>data. readFileSync fs (dir @ locale @ ''/'' @ fname) = Inr data
                                   \<and> getFlattenTranslations data = Inl e))))
   | Inr translationMap \<Rightarrow>
       (\<exists>locales. getLocales fs dir = Inr locales
          \<and> (\<forall>locale \<in> set locales.
                \<not> existsSync fs (dir @ locale @ ''/'' @ fname) \<longrightarrow>
                  map_of translationMap locale = Some []
                  \<and> locale \<in> set (objectKeys translationMap)
                  \<and> (\<exists>first rest.
                        generateTranslationFile toUpperCase translationMap
                          (getTranslationKeys translationMap) keyColumn names = first # rest
                        \<and> length (first # rest)
                            = length (getTranslationKeys translationMap) + 2
                        \<and> (\<forall>r \<in> set (first # rest).
                              getLocaleColumnName toUpperCase locale names
                                \<in> set (objectKeys r)))
                  \<and> (case generateTranslationMetaFile wordCount translationMap of
                        Inl e \<Rightarrow>
                          (\<exists>l d. map_of translationMap l = Some d
                             \<and> (\<exists>k \<in> set (objectKeys d).
                                    wordCount (getProp d k) = Inl e))
                      | Inr rows \<Rightarrow>
                          [(''LOCALE'', Str locale), (''NUMBER_OF_WORDS'', Num 0),
                           (''NUMBER_OF_KEYS'', Num 0)] \<in> set rows)))"
proof (cases "getTranslationMap fs getFlattenTranslations dir fname")
  case (Inl e)
  show ?thesis
  proof (cases "getLocales fs dir")
    case l: (Inl e')
    with Inl have "e' = e" by (simp add: getTranslationMap_def)
    with l getLocales_Inl [of fs dir e] Inl show ?thesis by auto
  next
    case (Inr locales)
    with Inl have "foldE (loadLocale fs getFlattenTranslations dir fname) [] locales = Inl e"
      by (simp add: getTranslationMap_def)
    from load_fold_Inl [OF this] Inr Inl show ?thesis by auto
  qed
next
  case (Inr m)
  then obtain locales where ls: "getLocales fs dir = Inr locales"
    and f: "foldE (loadLocale fs getFlattenTranslations dir fname) [] locales = Inr m"
    by (auto simp: getTranslationMap_def split: sum.splits)
  have "map_of m lc = Some []
        \<and> lc \<in> set (objectKeys m)
        \<and> (\<exists>first rest.
              generateTranslationFile toUpperCase m (getTranslationKeys m) keyColumn names
                = first # rest
              \<and> length (first # rest) = length (getTranslationKeys m) + 2
              \<and> (\<forall>r \<in> set (first # rest).
                    getLocaleColumnName toUpperCase lc names \<in> set (objectKeys r)))
        \<and> (case generateTranslationMetaFile wordCount m of
              Inl e \<Rightarrow>
                (\<exists>l d. map_of m l = Some d
                   \<and> (\<exists>k \<in> set (objectKeys d). wordCount (getProp d k) = Inl e))
            | Inr rows \<Rightarrow>
                [(''LOCALE'', Str lc), (''NUMBER_OF_WORDS'', Num 0),
                 (''NUMBER_OF_KEYS'', Num 0)] \<in> set rows)"
    if l: "lc \<in> set locales" and n: "\<not> existsSync fs (dir @ lc @ ''/'' @ fname)" for lc
  proof -
    let ?file = "generateTranslationFile toUpperCase m (getTranslationKeys m) keyColumn names"
    from load_fold_Inr [OF f l n] have e: "map_of m lc = Some []" .
    then have k: "lc \<in> set (objectKeys m)"
      unfolding keys_are_dom by auto
    have len: "length ?file = length (getTranslationKeys m) + 2"
      by (rule translation_file_length)
    then obtain first rest where fr: "?file = first # rest"
      by (cases ?file) auto
    have cols: "\<forall>r \<in> set ?file. getLocaleColumnName toUpperCase lc names \<in> set (objectKeys r)"
      using translation_file_columns [OF _ k] by blast
    from fr len cols have "\<exists>first rest. ?file = first # rest
              \<and> length (first # rest) = length (getTranslationKeys m) + 2
              \<and> (\<forall>r \<in> set (first # rest).
                    getLocaleColumnName toUpperCase lc names \<in> set (objectKeys r))"
      by auto
    with e k meta_file_has_empty_locale [OF e, where wordCount = wordCount]
    show ?thesis by blast
  qed
  with Inr ls show ?thesis by simp
qed

theorem missing_translation_file_gives_empty_locale_witness:
  "getLocales scenarioFs ''app/locales/'' = Inr [''en'', ''fr'']
   \<and> ''fr'' \<in> set [''en'', ''fr'']
   \<and> \<not> existsSync scenarioFs (''app/locales/'' @ ''fr'' @ ''/'' @ ''translations.js'')
   \<and> getTranslationMap scenarioFs scenarioFlatten ''app/locales/'' ''translations.js''
        = Inr [(''en'', [(''a'', Str ''hi'')]), (''fr'', [])]
   \<and> map_of [(''en'', [(''a'', Str ''hi'')]), (''fr'', [])] ''fr'' = Some ([] :: localeDict)
   \<and> ''fr'' \<in> set (objectKeys [(''en'', [(''a'', Str ''hi'')]), (''fr'', ([] :: localeDict))])
   \<and> generateTranslationFile asciiUpperCase [(''en'', [(''a'', Str ''hi'')]), (''fr'', [])]
        (getTranslationKeys [(''en'', [(''a'', Str ''hi'')]), (''fr'', [])]) ''SYSTEM_KEY'' []
      = [[(''SYSTEM_KEY'', Null), (''EN'', Undefined), (''FR'', Undefined)],
         [(''SYSTEM_KEY'', Str ''a''), (''EN'', Str ''hi''), (''FR'', Undefined)],
         [(''SYSTEM_KEY'', Null), (''EN'', Undefined), (''FR'', Undefined)]]
   \<and> generateTranslationMetaFile scenarioWordCount
        [(''en'', [(''a'', Str ''hi'')]), (''fr'', [])]
      = Inr [[(''LOCALE'', Str []), (''NUMBER_OF_KEYS'', Str []),
              (''NUMBER_OF_WORDS'', Str [])],
             [(''LOCALE'', Str ''en''), (''NUMBER_OF_WORDS'', Num 1),
              (''NUMBER_OF_KEYS'', Num 0)],
             [(''LOCALE'', Str ''fr''), (''NUMBER_OF_WORDS'', Num 0),
              (''NUMBER_OF_KEYS'', Num 0)]]"
proof -
  let ?m = "[(''en'', [(''a'', Str ''hi'')]), (''fr'', ([] :: localeDict))]"
  have l: "''fr'' \<in> set [''en'', ''fr'']" by simp
  have r: "\<not> existsSync scenarioFs (''app/locales/'' @ ''fr'' @ ''/'' @ ''translations.js'')"
    by simp
  from missing_translation_file_gives_empty_locale [where fs = scenarioFs
         and getFlattenTranslations = scenarioFlatten and dir = "''app/locales/''"
         and fname = "''translations.js''" and keyColumn = "''SYSTEM_KEY''" and names = "[]"
         and wordCount = scenarioWordCount and toUpperCase = asciiUpperCase]
  have "\<forall>locale \<in> set [''en'', ''fr''].
          \<not> existsSync scenarioFs (''app/locales/'' @ locale @ ''/'' @ ''translations.js'') \<longrightarrow>
            map_of ?m locale = Some [] \<and> locale \<in> set (objectKeys ?m)"
    unfolding scenario_load scenario_locales by simp
  with l r have "map_of ?m ''fr'' = Some [] \<and> ''fr'' \<in> set (objectKeys ?m)"
    by blast
  with l r scenario_load scenario_locales scenario_export scenario_meta
  show ?thesis by (intro conjI) simp_all
qed

end
